theory Spec2Isabelle
  imports Complex_Main "HOL-Library.Multiset"
begin

section \<open>Python strings\<close>

text \<open>
  A Python \<open>str\<close> is modelled as a \<open>string\<close> of ASCII characters: the character classes
  of the patterns, \<open>str.lower\<close> and \<open>str.strip\<close> are written out on the ASCII range.
\<close>

definition digit_chars :: string where
  "digit_chars = ''0123456789''"

definition lower_chars :: string where
  "lower_chars = ''abcdefghijklmnopqrstuvwxyz''"

definition upper_chars :: string where
  "upper_chars = ''ABCDEFGHIJKLMNOPQRSTUVWXYZ''"

text \<open>The class \<open>\d\<close>.\<close>

definition is_digit :: "char \<Rightarrow> bool" where
  "is_digit c \<longleftrightarrow> c \<in> set digit_chars"

text \<open>The class \<open>\s\<close>, which is also what \<open>str.strip()\<close> removes: codes 9 to 13, 28 to 32.\<close>

definition is_space :: "char \<Rightarrow> bool" where
  "is_space c \<longleftrightarrow>
     c \<in> set [CHR '' '', CHR 0x09, CHR 0x0A, CHR 0x0B, CHR 0x0C, CHR 0x0D,
               CHR 0x1C, CHR 0x1D, CHR 0x1E, CHR 0x1F]"

definition lower_chr :: "char \<Rightarrow> char" where
  "lower_chr c = (case map_of (zip upper_chars lower_chars) c of Some d \<Rightarrow> d | None \<Rightarrow> c)"

definition upper_chr :: "char \<Rightarrow> char" where
  "upper_chr c = (case map_of (zip lower_chars upper_chars) c of Some d \<Rightarrow> d | None \<Rightarrow> c)"

text \<open>\<open>s.lower()\<close>\<close>

definition lower :: "string \<Rightarrow> string" where
  "lower s = map lower_chr s"

text \<open>\<open>s.strip()\<close>\<close>

definition strip :: "string \<Rightarrow> string" where
  "strip s = rev (dropWhile is_space (rev (dropWhile is_space s)))"

text \<open>\<open>s.startswith(p)\<close>\<close>

fun startswith :: "string \<Rightarrow> string \<Rightarrow> bool" where
  "startswith s [] = True"
| "startswith [] (p # ps) = False"
| "startswith (c # cs) (p # ps) = (c = p \<and> startswith cs ps)"

text \<open>\<open>sub in s\<close>\<close>

fun contains :: "string \<Rightarrow> string \<Rightarrow> bool" where
  "contains [] sub = (sub = [])"
| "contains (c # cs) sub = (startswith (c # cs) sub \<or> contains cs sub)"

text \<open>
  \<open>s.replace(old, '')\<close> for a non-empty \<open>old\<close>: every occurrence, left to right and
  without overlap, is removed. The recursion steps one character at a time and carries the
  number of characters still to skip.
\<close>

fun remove_from :: "nat \<Rightarrow> string \<Rightarrow> string \<Rightarrow> string" where
  "remove_from k old [] = []"
| "remove_from (Suc k) old (c # cs) = remove_from k old cs"
| "remove_from 0 old (c # cs) =
     (if old \<noteq> [] \<and> startswith (c # cs) old then remove_from (length old - 1) old cs
      else c # remove_from 0 old cs)"

definition remove_all :: "string \<Rightarrow> string \<Rightarrow> string" where
  "remove_all old s = remove_from 0 old s"

text \<open>\<open>s.split(sep)[0]\<close> for a one-character separator.\<close>

definition split_first :: "char \<Rightarrow> string \<Rightarrow> string" where
  "split_first sep s = takeWhile (\<lambda>c. c \<noteq> sep) s"

section \<open>Phone normalisation\<close>

text \<open>
  \<open>ContactScraper._normalize_phone\<close>. The substitution \<open>re.sub(r'[^\d+]', '', phone)\<close>
  deletes every character that is neither a digit nor a plus sign.
\<close>

definition normalize_phone :: "string \<Rightarrow> string option" where
  "normalize_phone phone =
     (let digits = filter (\<lambda>c. is_digit c \<or> c = CHR ''+'') phone in
      if length digits < 10 then None
      else if startswith digits ''+'' then Some digits
      else if length digits = 10 then Some (''+1'' @ digits)
      else if length digits = 11 \<and> startswith digits ''1'' then Some (''+'' @ digits)
      else Some (''+'' @ digits))"

text \<open>The number of digits of a string.\<close>

definition count_digits :: "string \<Rightarrow> nat" where
  "count_digits s = length (filter is_digit s)"

section \<open>Regular expressions\<close>

text \<open>
  The fragment of Python's \<open>re\<close> syntax that the patterns of the repository use. Every
  unbounded or counted repetition in them is over a character class (\<open>Many\<close>), and
  \<open>?\<close> is the only operator applied to a compound expression (\<open>Opt\<close>). Groups carry
  their number.
\<close>

datatype regex =
    Eps
  | Atom "char \<Rightarrow> bool"
  | Many "char \<Rightarrow> bool" nat "nat option"
  | Opt regex
  | Cat regex regex
  | Group nat regex
  | Bol
  | Eol

definition seq :: "regex list \<Rightarrow> regex" where
  "seq rs = foldr Cat rs Eps"

definition lit :: "string \<Rightarrow> regex" where
  "lit s = seq (map (\<lambda>c. Atom (\<lambda>x. x = c)) s)"

text \<open>
  Whether character \<open>c\<close> is in class \<open>p\<close>; under \<open>re.IGNORECASE\<close> (\<open>ic\<close>) also when
  its lower-case or upper-case form is.
\<close>

definition hit :: "bool \<Rightarrow> (char \<Rightarrow> bool) \<Rightarrow> char \<Rightarrow> bool" where
  "hit ic p c \<longleftrightarrow> p c \<or> (ic \<and> (p (lower_chr c) \<or> p (upper_chr c)))"

text \<open>
  A matcher state is the position in the subject, the text from there on, and the groups
  captured so far. \<open>rmatch\<close> returns the states in which the expression can finish, in the
  order in which the backtracking matcher tries them: greedy operators put the longest
  alternative first. The match that \<open>re\<close> reports is the head of the list.
\<close>

type_synonym mstate = "nat \<times> string \<times> (nat \<times> string) list"

fun rmatch :: "bool \<Rightarrow> regex \<Rightarrow> mstate \<Rightarrow> mstate list" where
  "rmatch ic Eps st = [st]"
| "rmatch ic (Atom p) (pos, rest, caps) =
     (case rest of
        [] \<Rightarrow> []
      | c # cs \<Rightarrow> if hit ic p c then [(Suc pos, cs, caps)] else [])"
| "rmatch ic (Many p lo hi) (pos, rest, caps) =
     (let n = length (takeWhile (hit ic p) rest);
          top = (case hi of None \<Rightarrow> n | Some h \<Rightarrow> min n h)
      in map (\<lambda>k. (pos + k, drop k rest, caps)) (rev [lo..<Suc top]))"
| "rmatch ic (Opt r) st = rmatch ic r st @ [st]"
| "rmatch ic (Cat r1 r2) st = concat (map (rmatch ic r2) (rmatch ic r1 st))"
| "rmatch ic (Group n r) (pos, rest, caps) =
     map (\<lambda>(pos', rest', caps'). (pos', rest', (n, take (pos' - pos) rest) # caps'))
       (rmatch ic r (pos, rest, caps))"
| "rmatch ic Bol (pos, rest, caps) = (if pos = 0 then [(pos, rest, caps)] else [])"
| "rmatch ic Eol (pos, rest, caps) =
     (if rest = [] \<or> rest = [CHR 0x0A] then [(pos, rest, caps)] else [])"

text \<open>\<open>re.match(r, s) is not None\<close>\<close>

definition re_match :: "bool \<Rightarrow> regex \<Rightarrow> string \<Rightarrow> bool" where
  "re_match ic r s \<longleftrightarrow> rmatch ic r (0, s, []) \<noteq> []"

text \<open>\<open>re.search(r, s) is not None\<close>: a match at some position of the subject.\<close>

fun search_from :: "bool \<Rightarrow> regex \<Rightarrow> nat \<Rightarrow> string \<Rightarrow> bool" where
  "search_from ic r pos [] = (rmatch ic r (pos, [], []) \<noteq> [])"
| "search_from ic r pos (c # cs) =
     (if rmatch ic r (pos, c # cs, []) \<noteq> [] then True else search_from ic r (Suc pos) cs)"

definition re_search :: "bool \<Rightarrow> regex \<Rightarrow> string \<Rightarrow> bool" where
  "re_search ic r s = search_from ic r 0 s"

text \<open>
  What \<open>re.findall\<close> returns for one match: the matched text when the pattern has no
  group, the text of the group when it has one (the empty string when the group took no
  part in the match), and a tuple of the groups' texts when it has several.
\<close>

datatype found = Str string | Tup "string list"

fun groups :: "regex \<Rightarrow> nat" where
  "groups (Opt r) = groups r"
| "groups (Cat r1 r2) = groups r1 + groups r2"
| "groups (Group n r) = Suc (groups r)"
| "groups r = 0"

definition group_text :: "(nat \<times> string) list \<Rightarrow> nat \<Rightarrow> string" where
  "group_text caps n = (case map_of caps n of None \<Rightarrow> [] | Some t \<Rightarrow> t)"

definition found_of :: "regex \<Rightarrow> string \<Rightarrow> (nat \<times> string) list \<Rightarrow> found" where
  "found_of r whole caps =
     (if groups r = 0 then Str whole
      else if groups r = 1 then Str (group_text caps 1)
      else Tup (map (group_text caps) [1..<Suc (groups r)]))"

text \<open>
  \<open>re.findall\<close>: the matches from left to right, without overlap. The scan moves one
  character at a time; \<open>skip\<close> is the number of characters still covered by the last
  match. (After an empty match the scan moves on by one character; no pattern of the
  repository matches the empty string.)
\<close>

fun findall_from :: "bool \<Rightarrow> regex \<Rightarrow> nat \<Rightarrow> nat \<Rightarrow> string \<Rightarrow> found list" where
  "findall_from ic r (Suc skip) pos [] = []"
| "findall_from ic r (Suc skip) pos (c # cs) = findall_from ic r skip (Suc pos) cs"
| "findall_from ic r 0 pos [] =
     (case rmatch ic r (pos, [], []) of
        [] \<Rightarrow> []
      | (pos', rest', caps) # _ \<Rightarrow> [found_of r [] caps])"
| "findall_from ic r 0 pos (c # cs) =
     (case rmatch ic r (pos, c # cs, []) of
        [] \<Rightarrow> findall_from ic r 0 (Suc pos) cs
      | (pos', rest', caps) # _ \<Rightarrow>
          found_of r (take (pos' - pos) (c # cs)) caps
            # findall_from ic r (pos' - pos - 1) (Suc pos) cs)"

definition findall :: "bool \<Rightarrow> regex \<Rightarrow> string \<Rightarrow> found list" where
  "findall ic r s = findall_from ic r 0 0 s"

section \<open>The pattern library\<close>

text \<open>\<open>utils/regex_patterns.py\<close>\<close>

definition is_alpha :: "char \<Rightarrow> bool" where
  "is_alpha c \<longleftrightarrow> c \<in> set (lower_chars @ upper_chars)"

text \<open>\<open>[a-zA-Z0-9._%+-]\<close>\<close>

definition local_class :: "char \<Rightarrow> bool" where
  "local_class c \<longleftrightarrow> c \<in> set (lower_chars @ upper_chars @ digit_chars @ ''._%+-'')"

text \<open>\<open>[a-zA-Z0-9.-]\<close>\<close>

definition domain_class :: "char \<Rightarrow> bool" where
  "domain_class c \<longleftrightarrow> c \<in> set (lower_chars @ upper_chars @ digit_chars @ ''.-'')"

text \<open>\<open>[-.\s]\<close>\<close>

definition sep_class :: "char \<Rightarrow> bool" where
  "sep_class c \<longleftrightarrow> c = CHR ''-'' \<or> c = CHR ''.'' \<or> is_space c"

text \<open>The common tail \<open>[a-zA-Z0-9.-]+\.[a-zA-Z]{2,}\<close> of the email patterns.\<close>

definition email_domain :: "regex list" where
  "email_domain = [Many domain_class 1 None, lit ''.'', Many is_alpha 2 None]"

definition EMAIL_PATTERNS :: "regex list" where
  "EMAIL_PATTERNS =
     [seq ([Many local_class 1 None, lit ''@''] @ email_domain),
      seq ([Many local_class 1 None, lit ''[at]''] @ email_domain),
      seq ([Many local_class 1 None, lit ''(at)''] @ email_domain),
      seq ([Many local_class 1 None, Many is_space 0 None, lit ''@'', Many is_space 0 None]
             @ email_domain)]"

text \<open>The optional country code \<open>(\+?\d{1,3}[-.\s]?)?\<close>, a capturing group.\<close>

definition country_code :: regex where
  "country_code =
     Opt (Group 1 (seq [Opt (lit ''+''), Many is_digit 1 (Some 3), Opt (Atom sep_class)]))"

text \<open>\<open>\d{n}\<close>\<close>

definition digits_n :: "nat \<Rightarrow> regex" where
  "digits_n n = Many is_digit n (Some n)"

text \<open>
  The shape \<open>(\+?\d{1,3}[-.\s]?)?\(?\d{a}\)?[-.\s]?\d{b}[-.\s]?\d{c}\<close> of the first four
  phone patterns.
\<close>

definition grouped_phone :: "nat \<Rightarrow> nat \<Rightarrow> nat \<Rightarrow> regex" where
  "grouped_phone a b c =
     seq [country_code, Opt (lit ''(''), digits_n a, Opt (lit '')''), Opt (Atom sep_class),
          digits_n b, Opt (Atom sep_class), digits_n c]"

definition PHONE_PATTERNS :: "regex list" where
  "PHONE_PATTERNS =
     [grouped_phone 3 3 4,
      grouped_phone 2 4 4,
      grouped_phone 4 3 3,
      grouped_phone 5 3 2,
      seq [digits_n 3, Opt (Atom sep_class), digits_n 3, Opt (Atom sep_class), digits_n 4],
      seq [lit ''('', digits_n 3, lit '')'', Many is_space 0 None, digits_n 3,
           Opt (Atom sep_class), digits_n 4],
      seq [lit ''('', digits_n 2, lit '')'', Many is_space 0 None, digits_n 4,
           Opt (Atom sep_class), digits_n 4]]"

text \<open>The dictionary of platform patterns, in its order of definition.\<close>

definition SOCIAL_MEDIA_PATTERNS :: "(string \<times> regex list) list" where
  "SOCIAL_MEDIA_PATTERNS =
     [(''facebook'', map lit [''facebook.com/'', ''fb.com/'', ''fb.me/'', ''facebook'']),
      (''twitter'', map lit [''twitter.com/'', ''t.co/'', ''twitter'', ''x.com/'']),
      (''linkedin'', map lit [''linkedin.com/'', ''linkedin'', ''lnkd.in/'']),
      (''instagram'', map lit [''instagram.com/'', ''instagr.am/'', ''instagram'']),
      (''youtube'', map lit [''youtube.com/'', ''youtu.be/'', ''youtube'']),
      (''pinterest'', map lit [''pinterest.com/'', ''pin.it/'', ''pinterest'']),
      (''tiktok'', map lit [''tiktok.com/'', ''tiktok''])]"

section \<open>Pages\<close>

text \<open>
  The HTML parser and the HTTP client are libraries outside the repository. A fetched
  page is its text together with the \<open>a\<close> elements that
  \<open>BeautifulSoup(html_content, 'html.parser').find_all('a')\<close> finds in it, in document
  order; an element has its \<open>href\<close> attribute, if any, and its text.
\<close>

record anchor =
  href :: "string option"
  get_text :: string

record page =
  html_content :: string
  find_all_a :: "anchor list"

text \<open>\<open>link.get('href', '')\<close>\<close>

definition get_href :: "anchor \<Rightarrow> string" where
  "get_href link = (case href link of None \<Rightarrow> [] | Some h \<Rightarrow> h)"

text \<open>\<open>soup.find_all('a', href=True)\<close>: the elements that have the attribute.\<close>

definition with_href :: "page \<Rightarrow> anchor list" where
  "with_href pg = filter (\<lambda>a. href a \<noteq> None) (find_all_a pg)"

text \<open>
  \<open>soup.find_all('a', href=re.compile(pattern, re.I))\<close>: the elements whose attribute is
  present and is found by the pattern.
\<close>

definition with_href_like :: "regex \<Rightarrow> page \<Rightarrow> anchor list" where
  "with_href_like r pg =
     filter (\<lambda>a. case href a of None \<Rightarrow> False | Some h \<Rightarrow> re_search True r h) (find_all_a pg)"

section \<open>Email extraction\<close>

text \<open>The pattern \<open>^[a-zA-Z0-9._%+-]+@[a-zA-Z0-9.-]+\.[a-zA-Z]{2,}$\<close>.\<close>

definition valid_email_pattern :: regex where
  "valid_email_pattern = seq ([Bol, Many local_class 1 None, lit ''@''] @ email_domain @ [Eol])"

definition false_positives :: "string list" where
  "false_positives =
     [''email@example.com'', ''example@example.com'', ''your@email.com'', ''user@example.com'']"

text \<open>\<open>ContactScraper._is_valid_email\<close>\<close>

definition is_valid_email :: "string \<Rightarrow> bool" where
  "is_valid_email email =
     (if \<not> re_match False valid_email_pattern email then False
      else if email \<in> set false_positives then False
      else if list_ex (\<lambda>word. contains email word)
                [''example'', ''domain'', ''test'', ''noreply''] then False
      else True)"

text \<open>\<open>match[0]\<close> when the match is a tuple, the match itself otherwise.\<close>

definition first_of :: "found \<Rightarrow> string" where
  "first_of m = (case m of Str s \<Rightarrow> s | Tup ts \<Rightarrow> (case ts of [] \<Rightarrow> [] | t # _ \<Rightarrow> t))"

text \<open>
  \<open>ContactScraper._extract_emails\<close>. The Python set is a list without repetitions;
  \<open>List.insert\<close> adds an element that is not yet there. The order of \<open>list(emails)\<close> is
  not specified by Python; here it is the order of insertion, newest first.
\<close>

definition emails_from_matches :: "string list \<Rightarrow> found list \<Rightarrow> string list" where
  "emails_from_matches emails matches =
     foldl (\<lambda>emails m.
              let email = strip (lower (first_of m))
              in if is_valid_email email then List.insert email emails else emails)
       emails matches"

definition emails_from_links :: "string list \<Rightarrow> anchor list \<Rightarrow> string list" where
  "emails_from_links emails mailto_links =
     foldl (\<lambda>emails link.
              let email = strip (split_first CHR ''?'' (remove_all ''mailto:'' (get_href link)))
              in if is_valid_email email then List.insert (lower email) emails else emails)
       emails mailto_links"

definition extract_emails :: "page \<Rightarrow> string \<Rightarrow> string list" where
  "extract_emails pg base_url =
     (let emails =
            foldl (\<lambda>emails pattern.
                     emails_from_matches emails (findall True pattern (html_content pg)))
              [] EMAIL_PATTERNS
      in emails_from_links emails (with_href_like (seq [Bol, lit ''mailto:'']) pg))"

section \<open>Phone extraction\<close>

text \<open>\<open>''.join(match)\<close> when the match is a tuple, the match itself otherwise.\<close>

definition joined :: "found \<Rightarrow> string" where
  "joined m = (case m of Str s \<Rightarrow> s | Tup ts \<Rightarrow> concat ts)"

definition add_phone :: "string list \<Rightarrow> string \<Rightarrow> string list" where
  "add_phone phones candidate =
     (case normalize_phone candidate of None \<Rightarrow> phones | Some phone \<Rightarrow> List.insert phone phones)"

text \<open>\<open>ContactScraper._extract_phones\<close>\<close>

definition extract_phones :: "page \<Rightarrow> string list" where
  "extract_phones pg =
     (let phones =
            foldl (\<lambda>phones pattern.
                     foldl (\<lambda>phones m. add_phone phones (joined m))
                       phones (findall False pattern (html_content pg)))
              [] PHONE_PATTERNS
      in foldl (\<lambda>phones link. add_phone phones (strip (remove_all ''tel:'' (get_href link))))
           phones (with_href_like (seq [Bol, lit ''tel:'']) pg))"

section \<open>Social links\<close>

text \<open>
  \<open>urllib.parse.urljoin\<close> is a library function; the extraction functions take it as
  the parameter \<open>urljoin\<close>. It returns the joined URL (\<open>Inr\<close>), or raises
  \<open>ValueError\<close> for a base or a target that it cannot parse (\<open>Inl\<close>, with the message),
  as for the target \<open>http://[facebook.com/x\<close>.
\<close>

type_synonym joiner = "string \<Rightarrow> string \<Rightarrow> string + string"

text \<open>
  A loop that extends a list with what each step gives; an exception raised by a step
  leaves the loop and the function, and what was collected is lost.
\<close>

fun gather :: "('a \<Rightarrow> string + 'b list) \<Rightarrow> 'a list \<Rightarrow> string + 'b list" where
  "gather f [] = Inr []"
| "gather f (x # xs) =
     (case f x of
        Inl e \<Rightarrow> Inl e
      | Inr ys \<Rightarrow> (case gather f xs of Inl e \<Rightarrow> Inl e | Inr zs \<Rightarrow> Inr (ys @ zs)))"

text \<open>
  The loop over the patterns of one platform: the first pattern found in the link target
  or in the text joins the link target to the base, appends one entry and leaves this
  loop (\<open>break\<close>).
\<close>

fun platform_entry ::
  "joiner \<Rightarrow> string \<Rightarrow> string \<Rightarrow> regex list \<Rightarrow> string \<Rightarrow> string \<Rightarrow>
   string + (string \<times> string) list" where
  "platform_entry urljoin base_url platform [] h t = Inr []"
| "platform_entry urljoin base_url platform (pattern # patterns) h t =
     (if re_search False pattern h \<or> re_search False pattern t then
        (case urljoin base_url h of
           Inl e \<Rightarrow> Inl e
         | Inr full_url \<Rightarrow> Inr [(platform, full_url)])
      else platform_entry urljoin base_url platform patterns h t)"

text \<open>The body of the loop over the elements: the loop over all platforms.\<close>

definition anchor_entries :: "joiner \<Rightarrow> string \<Rightarrow> anchor \<Rightarrow> string + (string \<times> string) list" where
  "anchor_entries urljoin base_url element =
     (let h = lower (get_href element); t = lower (get_text element)
      in gather (\<lambda>(platform, patterns). platform_entry urljoin base_url platform patterns h t)
           SOCIAL_MEDIA_PATTERNS)"

text \<open>\<open>ContactScraper._extract_social_media\<close>\<close>

definition extract_social_media ::
  "joiner \<Rightarrow> page \<Rightarrow> string \<Rightarrow> string + (string \<times> string) list" where
  "extract_social_media urljoin pg base_url =
     gather (anchor_entries urljoin base_url) (with_href pg)"

section \<open>Contact page\<close>

definition contact_indicators :: "string list" where
  "contact_indicators =
     [''contact'', ''contact-us'', ''contact.html'', ''contact.php'',
      ''about'', ''about-us'', ''connect'', ''get-in-touch'']"

text \<open>
  \<open>ContactScraper._find_contact_page\<close>: the joined URL of the first contact-like link,
  \<open>None\<close> when there is no such link, or the exception of \<open>urljoin\<close>.
\<close>

definition find_contact_page :: "joiner \<Rightarrow> page \<Rightarrow> string \<Rightarrow> string + string option" where
  "find_contact_page urljoin pg base_url =
     (case List.find
             (\<lambda>link. list_ex (\<lambda>indicator. contains (lower (get_href link)) indicator
                                         \<or> contains (lower (get_text link)) indicator)
                        contact_indicators)
             (with_href pg) of
        None \<Rightarrow> Inr None
      | Some link \<Rightarrow>
          (case urljoin base_url (lower (get_href link)) of
             Inl e \<Rightarrow> Inl e
           | Inr full_url \<Rightarrow> Inr (Some full_url)))"

section \<open>Scraping one website\<close>

text \<open>
  What \<open>requests.get\<close> followed by \<open>raise_for_status\<close> does for one URL: a response, a
  \<open>requests.RequestException\<close>, or another exception, each with its message.
\<close>

datatype response = Response page | RequestException string | OtherException string

text \<open>
  \<open>ContactScraper._fetch_url\<close>: a \<open>RequestException\<close> is caught and gives \<open>None\<close>; any
  other exception leaves the function (\<open>Inl\<close>).
\<close>

definition fetch_url :: "(string \<Rightarrow> response) \<Rightarrow> string \<Rightarrow> string + page option" where
  "fetch_url get url =
     (case get url of
        Response pg \<Rightarrow> Inr (Some pg)
      | RequestException e \<Rightarrow> Inr None
      | OtherException e \<Rightarrow> Inl e)"

text \<open>The dictionary of contact facts; a key that the dictionary lacks is \<open>None\<close>.\<close>

record contacts =
  emails :: "string list option"
  phones :: "string list option"
  social_media :: "(string \<times> string) list option"
  source_url :: "string option"
  error :: "string option"

definition failure :: "string \<Rightarrow> contacts" where
  "failure message =
     \<lparr>emails = Some [], phones = Some [], social_media = Some [],
      source_url = None, error = Some message\<rparr>"

text \<open>
  The fallback of \<open>scrape_website_contacts\<close>: when the page gave neither emails nor
  phones, the first contact-like link is fetched and searched. The result is the emails
  and phones after the fallback, or the exception that left the search for the link or
  the fetch.
\<close>

definition with_contact_page ::
  "joiner \<Rightarrow> (string \<Rightarrow> response) \<Rightarrow> page \<Rightarrow> string \<Rightarrow>
   string list \<Rightarrow> string list \<Rightarrow> string + (string list \<times> string list)" where
  "with_contact_page urljoin get pg url es ps =
     (if es = [] \<and> ps = [] then
        (case find_contact_page urljoin pg url of
           Inl e \<Rightarrow> Inl e
         | Inr None \<Rightarrow> Inr (es, ps)
         | Inr (Some contact_page_url) \<Rightarrow>
             if contact_page_url \<noteq> [] \<and> contact_page_url \<noteq> url then
               (case fetch_url get contact_page_url of
                  Inl e \<Rightarrow> Inl e
                | Inr None \<Rightarrow> Inr (es, ps)
                | Inr (Some contact_pg) \<Rightarrow>
                    if html_content contact_pg \<noteq> [] then
                      Inr (es @ extract_emails contact_pg contact_page_url,
                           ps @ extract_phones contact_pg)
                    else Inr (es, ps))
             else Inr (es, ps))
      else Inr (es, ps))"

text \<open>
  \<open>ContactScraper.scrape_website_contacts\<close>. The URL is \<open>None\<close>, or a string that may
  be empty. \<open>list(set(xs))\<close> is \<open>remdups xs\<close>. The social links are extracted before
  the fallback is tried; an exception of either is caught and gives the failure
  dictionary with its message.
\<close>

definition scrape_website_contacts ::
  "joiner \<Rightarrow> (string \<Rightarrow> response) \<Rightarrow> string option \<Rightarrow> string \<Rightarrow> contacts" where
  "scrape_website_contacts urljoin get url business_name =
     (case url of
        None \<Rightarrow> failure ''No URL provided''
      | Some u \<Rightarrow>
          if u = [] then failure ''No URL provided''
          else
            (case fetch_url get u of
               Inl e \<Rightarrow> failure e
             | Inr None \<Rightarrow> failure ''Failed to fetch URL''
             | Inr (Some pg) \<Rightarrow>
                 if html_content pg = [] then failure ''Failed to fetch URL''
                 else
                   (case extract_social_media urljoin pg u of
                      Inl e \<Rightarrow> failure e
                    | Inr links \<Rightarrow>
                        (case with_contact_page urljoin get pg u
                                (extract_emails pg u) (extract_phones pg) of
                           Inl e \<Rightarrow> failure e
                         | Inr (es, ps) \<Rightarrow>
                             \<lparr>emails = Some (remdups es), phones = Some (remdups ps),
                              social_media = Some links,
                              source_url = Some u, error = None\<rparr>))))"

section \<open>Scraping a batch\<close>

text \<open>
  The truth value of an optional string: \<open>None\<close> and the empty string are false.
\<close>

definition truthy :: "string option \<Rightarrow> bool" where
  "truthy url = (case url of None \<Rightarrow> False | Some u \<Rightarrow> u \<noteq> [])"

text \<open>
  The worker \<open>scrape_single\<close>. \<open>scrape_website_contacts\<close> catches every exception
  itself; \<open>time.sleep\<close> raises \<open>ValueError\<close> for a negative delay, which the worker
  turns into a dictionary with the error alone.
\<close>

definition scrape_single ::
  "joiner \<Rightarrow> (string \<Rightarrow> response) \<Rightarrow> real \<Rightarrow> string \<Rightarrow> string option \<Rightarrow>
   string \<times> contacts" where
  "scrape_single urljoin get delay business url =
     (let contacts = scrape_website_contacts urljoin get url business
      in if delay < 0 then
           (business, \<lparr>emails = None, phones = None, social_media = None, source_url = None,
                       error = Some ''sleep length must be non-negative''\<rparr>)
         else (business, contacts))"

text \<open>The items handed to the executor: those whose URL is true.\<close>

definition submitted :: "(string \<times> string option) list \<Rightarrow> (string \<times> string option) list" where
  "submitted business_urls = filter (\<lambda>(business, url). truthy url) business_urls"

text \<open>
  \<open>ContactScraper.batch_scrape_contacts\<close>. The dictionary \<open>business_urls\<close> is the list
  of its items, with distinct keys. \<open>net business\<close> is what the requests made for that
  business receive. \<open>as_completed\<close> yields the futures in an order of its own, given by
  \<open>completion\<close>, a rearrangement of the submitted items. A thread pool of no workers
  cannot be created: the constructor raises \<open>ValueError\<close>.
\<close>

definition batch_scrape_contacts ::
  "joiner \<Rightarrow> (string \<Rightarrow> string \<Rightarrow> response) \<Rightarrow>
   ((string \<times> string option) list \<Rightarrow> (string \<times> string option) list) \<Rightarrow>
   (string \<times> string option) list \<Rightarrow> real \<Rightarrow> int \<Rightarrow> string + (string \<rightharpoonup> contacts)" where
  "batch_scrape_contacts urljoin net completion business_urls delay max_workers =
     (if max_workers \<le> 0 then Inl ''max_workers must be greater than 0''
      else Inr (foldl (\<lambda>results (business, url).
                         case scrape_single urljoin (net business) delay business url of
                           (business', contacts) \<Rightarrow> results(business' \<mapsto> contacts))
                  Map.empty (completion (submitted business_urls))))"

section \<open>Reconciliation\<close>

record business_record =
  business_name :: string
  website_url :: "string option"
  rec_emails :: "string list"
  rec_phones :: "string list"
  rec_social_media :: "(string \<times> string) list"
  source_page :: string
  scrape_timestamp :: string
  errors :: string

text \<open>The attributes of \<open>BusinessScraperPipeline\<close> that reconciliation reads and writes.\<close>

record pipeline =
  business_names :: "string list"
  business_urls :: "(string \<times> string option) list"
  contact_info :: "string \<rightharpoonup> contacts"
  failed_businesses :: "string list"

text \<open>\<open>d.get(key, default)\<close> on an optional field.\<close>

definition get_or :: "'a \<Rightarrow> 'a option \<Rightarrow> 'a" where
  "get_or dflt v = (case v of None \<Rightarrow> dflt | Some x \<Rightarrow> x)"

definition no_contacts :: contacts where
  "no_contacts =
     \<lparr>emails = None, phones = None, social_media = None, source_url = None, error = None\<rparr>"

text \<open>\<open>self.contact_info.get(business_name, {})\<close>\<close>

definition lookup_contacts :: "(string \<rightharpoonup> contacts) \<Rightarrow> string \<Rightarrow> contacts" where
  "lookup_contacts info business = get_or no_contacts (info business)"

definition make_record :: "string \<Rightarrow> string \<Rightarrow> string option \<Rightarrow> contacts \<Rightarrow> business_record" where
  "make_record now business url c =
     \<lparr>business_name = business, website_url = url,
      rec_emails = get_or [] (emails c), rec_phones = get_or [] (phones c),
      rec_social_media = get_or [] (social_media c),
      source_page = get_or [] (source_url c),
      scrape_timestamp = now, errors = get_or [] (error c)\<rparr>"

text \<open>
  The test \<open>not url or (not contacts.get('emails') and not contacts.get('phones'))\<close>.
\<close>

definition is_failed :: "string option \<Rightarrow> contacts \<Rightarrow> bool" where
  "is_failed url c \<longleftrightarrow>
     (if truthy url then get_or [] (emails c) = [] \<and> get_or [] (phones c) = [] else True)"

text \<open>
  \<open>BusinessScraperPipeline._prepare_final_data\<close>: one pass over the items of
  \<open>business_urls\<close>, appending a record for each and the name of each failed business to
  \<open>failed_businesses\<close>. \<open>clock i\<close> is the time read for record number \<open>i\<close>. The result is
  the list of records and the pipeline afterwards.
\<close>

definition prepare_step ::
  "(nat \<Rightarrow> string) \<Rightarrow> (string \<rightharpoonup> contacts) \<Rightarrow> business_record list \<times> string list \<Rightarrow>
   string \<times> string option \<Rightarrow> business_record list \<times> string list" where
  "prepare_step clock info acc item =
     (case acc of (final_data, failed) \<Rightarrow>
      case item of (business, url) \<Rightarrow>
        let c = lookup_contacts info business;
            r = make_record (clock (length final_data)) business url c
        in (final_data @ [r], if is_failed url c then failed @ [business] else failed))"

definition prepare_final_data ::
  "(nat \<Rightarrow> string) \<Rightarrow> pipeline \<Rightarrow> business_record list \<times> pipeline" where
  "prepare_final_data clock self =
     (case foldl (prepare_step clock (contact_info self)) ([], failed_businesses self)
             (business_urls self) of
        (final_data, failed) \<Rightarrow> (final_data, self\<lparr>failed_businesses := failed\<rparr>))"

section \<open>Auxiliary notions and example data\<close>

text \<open>
  Whether one of the patterns of a platform is found in the lower-cased link target or
  text of an element.
\<close>

definition matches_platform :: "regex list \<Rightarrow> anchor \<Rightarrow> bool" where
  "matches_platform patterns element =
     list_ex (\<lambda>pattern. re_search False pattern (lower (get_href element))
                        \<or> re_search False pattern (lower (get_text element)))
       patterns"

text \<open>
  The records that reconciliation appends for a list of items, the first of them being
  record number \<open>n\<close>.
\<close>

fun records_from ::
  "(nat \<Rightarrow> string) \<Rightarrow> (string \<rightharpoonup> contacts) \<Rightarrow> nat \<Rightarrow> (string \<times> string option) list \<Rightarrow>
   business_record list" where
  "records_from clock info n [] = []"
| "records_from clock info n ((business, url) # items) =
     make_record (clock n) business url (lookup_contacts info business)
       # records_from clock info (Suc n) items"

text \<open>The records of one business in the reconciled output.\<close>

definition records_of :: "string \<Rightarrow> business_record list \<Rightarrow> business_record list" where
  "records_of business final_data = filter (\<lambda>r. business_name r = business) final_data"

text \<open>
  For a link target that is an absolute URL (a scheme, a host and a path without dot
  segments) \<open>urljoin\<close> returns the target, whatever the base. The concrete examples
  below join such targets only.
\<close>

definition urljoin_absolute :: joiner where
  "urljoin_absolute base url = Inr url"

text \<open>The names of the platforms that have a pattern found in an element, in table order.\<close>

definition matching_platforms :: "anchor \<Rightarrow> string list" where
  "matching_platforms element =
     map fst (filter (\<lambda>(platform, patterns). matches_platform patterns element)
                SOCIAL_MEDIA_PATTERNS)"

text \<open>A page with one link to a Facebook profile.\<close>

definition facebook_page :: page where
  "facebook_page =
     \<lparr>html_content = ''<a href=https://facebook.com/MyBiz>MyBiz</a>'',
      find_all_a = [\<lparr>href = Some ''https://facebook.com/MyBiz'', get_text = ''MyBiz''\<rparr>]\<rparr>"

text \<open>A page with one link whose target names two platforms.\<close>

definition two_platform_page :: page where
  "two_platform_page =
     \<lparr>html_content = ''<a href=https://facebook.com/twitter>Twitter</a>'',
      find_all_a = [\<lparr>href = Some ''https://facebook.com/twitter'', get_text = ''Twitter''\<rparr>]\<rparr>"

text \<open>A page whose text holds a phone number in the grouping 2-4-4.\<close>

definition phone_page :: page where
  "phone_page = \<lparr>html_content = ''<p>Call 12 3456 7890</p>'', find_all_a = []\<rparr>"

text \<open>A page with one telephone link, a plus sign followed by nine digits.\<close>

definition tel_page :: page where
  "tel_page =
     \<lparr>html_content = ''<a href=tel:+123456789>Call</a>'',
      find_all_a = [\<lparr>href = Some ''tel:+123456789'', get_text = ''Call''\<rparr>]\<rparr>"

text \<open>A page with one mail link, the address written with a capital letter.\<close>

definition mailto_page :: page where
  "mailto_page =
     \<lparr>html_content = ''<a href=mailto:user@Example.com>mail</a>'',
      find_all_a = [\<lparr>href = Some ''mailto:user@Example.com'', get_text = ''mail''\<rparr>]\<rparr>"

text \<open>
  A network on which every request is refused, and one on which the requests of the
  first business raise an unexpected exception and those of the second time out.
\<close>

definition refusing :: "string \<Rightarrow> response" where
  "refusing url = RequestException ''connection refused''"

definition example_net :: "string \<Rightarrow> string \<Rightarrow> response" where
  "example_net business url =
     (if business = ''A'' then OtherException ''boom''
      else if business = ''B'' then RequestException ''timed out''
      else Response facebook_page)"


text \<open>A URL map in which the second business has no URL.\<close>

definition example_urls_gap :: "(string \<times> string option) list" where
  "example_urls_gap = [(''A'', Some ''https://a.io''), (''B'', None)]"

definition example_clock :: "nat \<Rightarrow> string" where
  "example_clock i = ''2024-01-01T00:00:00''"

text \<open>
  A pipeline after the scraping stage: the site of the one business gave a social link
  and neither an email nor a phone.
\<close>

definition social_only :: pipeline where
  "social_only =
     \<lparr>business_names = [''C''],
      business_urls = [(''C'', Some ''https://c.io'')],
      contact_info =
        [''C'' \<mapsto> \<lparr>emails = Some [], phones = Some [],
                   social_media = Some [(''facebook'', ''https://facebook.com/mybiz'')],
                   source_url = Some ''https://c.io'', error = None\<rparr>],
      failed_businesses = []\<rparr>"

text \<open>
  A pipeline after the scraping stage of a run over three extracted names: the first
  business was scraped, the second has no URL and so no contact facts, and the third is
  not in the URL map.
\<close>

definition example_pipeline :: pipeline where
  "example_pipeline =
     \<lparr>business_names = [''A'', ''B'', ''D''],
      business_urls = example_urls_gap,
      contact_info =
        [''A'' \<mapsto> \<lparr>emails = Some [''info@a.io''], phones = Some [],
                   social_media = Some [], source_url = Some ''https://a.io'', error = None\<rparr>],
      failed_businesses = []\<rparr>"

section \<open>Phone normalisation and extraction\<close>

lemma normalize_phone_plus:
  "normalize_phone phone = Some r \<Longrightarrow> startswith r ''+''"
  by (auto simp: normalize_phone_def Let_def split: if_splits)

text \<open>
  Claim C1. A result of phone normalisation should start with a plus sign and hold at
  least ten digits, and an input that leaves fewer than ten digits should be rejected.
  The length test counts the plus signs that were kept as well as the digits: the input
  \<open>+123456789\<close>, which a telephone link can carry, leaves nine digits, is accepted and
  is returned with nine digits.
\<close>

theorem normalize_phone_nine_digits:
  "count_digits ''+123456789'' = 9
   \<and> normalize_phone ''+123456789'' = Some ''+123456789''
   \<and> extract_phones tel_page = [''+123456789'']"
  by code_simp

text \<open>
  Claim C3. A phone number in the text of a page, written in the grouping 3-3-4, 2-4-4,
  4-3-3 or 5-3-2, should be extracted in its normalised form. The four patterns for these
  groupings have a capturing group around the country code, so \<open>re.findall\<close> returns
  the text of that group in place of the number, and normalisation rejects it. The
  number \<open>12 3456 7890\<close> is matched by the pattern for 2-4-4 only and is not extracted.
\<close>

theorem grouping_2_4_4_not_extracted:
  "contains (html_content phone_page) ''12 3456 7890''
   \<and> normalize_phone ''12 3456 7890'' = Some ''+11234567890''
   \<and> extract_phones phone_page = []"
  by code_simp

section \<open>Email extraction\<close>

text \<open>
  Claim C4. The extracted emails should hold neither a placeholder address nor an address
  containing \<open>example\<close>, \<open>domain\<close>, \<open>test\<close> or \<open>noreply\<close>. The addresses found by the
  patterns are validated in lower case; the address of a mail link is validated as it is
  written and lower-cased afterwards. The link \<open>mailto:user@Example.com\<close> passes the
  validation and puts the placeholder \<open>user@example.com\<close> into the result.
\<close>

theorem mailto_placeholder_extracted:
  "extract_emails mailto_page base_url = [''user@example.com'']
   \<and> ''user@example.com'' \<in> set false_positives
   \<and> contains ''user@example.com'' ''example''"
  by code_simp

section \<open>Social links\<close>

lemma platform_entry_eq:
  "platform_entry urljoin base_url platform patterns h t =
     (if list_ex (\<lambda>pattern. re_search False pattern h \<or> re_search False pattern t) patterns
      then (case urljoin base_url h of
              Inl e \<Rightarrow> Inl e
            | Inr full_url \<Rightarrow> Inr [(platform, full_url)])
      else Inr [])"
  by (induction patterns) auto

lemma gather_single: "gather f [x] = f x"
  by (cases "f x") auto

lemma gather_joined:
  "gather (\<lambda>x. if P x then Inr [(fst x, full_url)] else Inr []) xs
     = Inr (map (\<lambda>platform. (platform, full_url)) (map fst (filter P xs)))"
  by (induction xs) auto

lemma gather_raised:
  "gather (\<lambda>x. if P x then Inl e else Inr []) xs
     = (if map fst (filter P xs) = [] then Inr [] else Inl e)"
  by (induction xs) auto

text \<open>
  What one element contributes: nothing when no platform matches; otherwise the link
  target is joined to the base, and the element gives one entry for each matching
  platform, or the exception of the join.
\<close>

lemma anchor_entries_eq:
  "anchor_entries urljoin base_url element =
     (if matching_platforms element = [] then Inr []
      else (case urljoin base_url (lower (get_href element)) of
              Inl e \<Rightarrow> Inl e
            | Inr full_url \<Rightarrow>
                Inr (map (\<lambda>platform. (platform, full_url)) (matching_platforms element))))"
proof -
  let ?P = "\<lambda>x. case x of (platform, patterns) \<Rightarrow> matches_platform patterns element"
  let ?f = "\<lambda>(platform, patterns).
              platform_entry urljoin base_url platform patterns
                (lower (get_href element)) (lower (get_text element))"
  have entries: "anchor_entries urljoin base_url element = gather ?f SOCIAL_MEDIA_PATTERNS"
    by (simp add: anchor_entries_def Let_def)
  show ?thesis
  proof (cases "urljoin base_url (lower (get_href element))")
    case (Inl e)
    then have "?f = (\<lambda>x. if ?P x then Inl e else Inr [])"
      by (auto simp: fun_eq_iff platform_entry_eq matches_platform_def)
    with Inl entries show ?thesis
      by (simp add: gather_raised matching_platforms_def)
  next
    case (Inr full_url)
    then have "?f = (\<lambda>x. if ?P x then Inr [(fst x, full_url)] else Inr [])"
      by (auto simp: fun_eq_iff platform_entry_eq matches_platform_def)
    with Inr entries show ?thesis
      by (simp add: gather_joined matching_platforms_def)
  qed
qed

text \<open>
  Claim C2. An element should be attributed to one platform at most, the first whose
  patterns match its link target or text, and should contribute one entry at most. The
  \<open>break\<close> leaves the loop over the patterns of one platform only, and the loop over the
  platforms goes on: the one link to \<open>https://facebook.com/twitter\<close> gives an entry for
  Facebook and an entry for Twitter.
\<close>

theorem anchor_two_platforms:
  "length (with_href two_platform_page) = 1
   \<and> extract_social_media urljoin_absolute two_platform_page ''https://biz.io''
       = Inr [(''facebook'', ''https://facebook.com/twitter''),
              (''twitter'', ''https://facebook.com/twitter'')]"
  by code_simp

text \<open>
  Claim C8. A link to \<open>https://facebook.com/MyBiz\<close> should be classified as Facebook, with
  the resolved URL of the link target preserved. The link is classified as Facebook; the
  URL that is joined to the base is the lower-cased link target, so the entry holds
  \<open>https://facebook.com/mybiz\<close>.
\<close>

theorem facebook_link_lowercased:
  "map get_href (with_href facebook_page) = [''https://facebook.com/MyBiz'']
   \<and> extract_social_media urljoin facebook_page base_url
       = (case urljoin base_url ''https://facebook.com/mybiz'' of
            Inl e \<Rightarrow> Inl e
          | Inr full_url \<Rightarrow> Inr [(''facebook'', full_url)])
   \<and> extract_social_media urljoin_absolute facebook_page base_url
       = Inr [(''facebook'', ''https://facebook.com/mybiz'')]
   \<and> extract_social_media urljoin_absolute facebook_page base_url
       \<noteq> Inr [(''facebook'', ''https://facebook.com/MyBiz'')]"
proof -
  let ?a = "\<lparr>href = Some ''https://facebook.com/MyBiz'', get_text = ''MyBiz''\<rparr>"
  have links: "with_href facebook_page = [?a]" by code_simp
  have target: "lower (get_href ?a) = ''https://facebook.com/mybiz''" by code_simp
  have platforms: "matching_platforms ?a = [''facebook'']" by code_simp
  have joined: "extract_social_media j facebook_page base_url
       = (case j base_url ''https://facebook.com/mybiz'' of
            Inl e \<Rightarrow> Inl e
          | Inr full_url \<Rightarrow> Inr [(''facebook'', full_url)])" for j
  proof -
    have "extract_social_media j facebook_page base_url = anchor_entries j base_url ?a"
      by (simp only: extract_social_media_def links gather_single)
    then show ?thesis
      by (simp add: anchor_entries_eq target platforms split: sum.splits)
  qed
  have "map get_href (with_href facebook_page) = [''https://facebook.com/MyBiz'']"
    by code_simp
  then show ?thesis
    by (simp add: joined urljoin_absolute_def)
qed

section \<open>Scraping one website\<close>

lemma failure_fields:
  "emails (failure m) = Some []" "phones (failure m) = Some []"
  "social_media (failure m) = Some []" "source_url (failure m) = None"
  "error (failure m) = Some m"
  by (simp_all add: failure_def)

lemma scrape_failure_or_success:
  "(\<exists>m. scrape_website_contacts urljoin get url b = failure m) \<or>
   (error (scrape_website_contacts urljoin get url b) = None \<and>
    source_url (scrape_website_contacts urljoin get url b) = url \<and> truthy url)"
  by (auto simp: scrape_website_contacts_def truthy_def
           split: option.splits sum.splits prod.splits)

lemma scrape_join_error:
  "u \<noteq> [] \<Longrightarrow> get u = Response pg \<Longrightarrow> html_content pg \<noteq> [] \<Longrightarrow>
   extract_social_media urljoin pg u = Inl e \<Longrightarrow>
   scrape_website_contacts urljoin get (Some u) b = failure e"
  by (simp add: scrape_website_contacts_def fetch_url_def)

text \<open>
  Claim C9, as the code has it. When the request for the URL fails, with a
  \<open>RequestException\<close> or with any other exception, the result is the failure dictionary:
  empty emails, phones and social links, and an error message; no exception leaves the
  function. A failure dictionary has no \<open>source_url\<close>. Every result is either a failure
  dictionary or a dictionary without error whose \<open>source_url\<close> is the URL that was given.
\<close>

theorem fetch_failure_gives_error_result:
  "(u \<noteq> [] \<and> get u = RequestException e \<longrightarrow>
      scrape_website_contacts urljoin get (Some u) b = failure ''Failed to fetch URL'')
   \<and> (u \<noteq> [] \<and> get u = OtherException e \<longrightarrow>
      scrape_website_contacts urljoin get (Some u) b = failure e)
   \<and> emails (failure m) = Some [] \<and> phones (failure m) = Some []
   \<and> social_media (failure m) = Some [] \<and> error (failure m) = Some m
   \<and> source_url (failure m) = None
   \<and> ((\<exists>m. scrape_website_contacts urljoin get url b = failure m) \<or>
       (error (scrape_website_contacts urljoin get url b) = None \<and>
        source_url (scrape_website_contacts urljoin get url b) = url \<and> truthy url))"
proof -
  have "u \<noteq> [] \<and> get u = RequestException e \<longrightarrow>
      scrape_website_contacts urljoin get (Some u) b = failure ''Failed to fetch URL''"
    by (simp add: scrape_website_contacts_def fetch_url_def)
  moreover have "u \<noteq> [] \<and> get u = OtherException e \<longrightarrow>
      scrape_website_contacts urljoin get (Some u) b = failure e"
    by (simp add: scrape_website_contacts_def fetch_url_def)
  ultimately show ?thesis
    using scrape_failure_or_success [of urljoin get url b] by (simp add: failure_fields)
qed

text \<open>The theorem at a refused request and at a request that raises another exception.\<close>

theorem fetch_failure_gives_error_result_witness:
  "''https://a.io'' \<noteq> [] \<and> refusing ''https://a.io'' = RequestException ''connection refused''
   \<and> scrape_website_contacts urljoin_absolute refusing (Some ''https://a.io'') ''A''
       = failure ''Failed to fetch URL''
   \<and> example_net ''A'' ''https://a.io'' = OtherException ''boom''
   \<and> scrape_website_contacts urljoin_absolute (example_net ''A'') (Some ''https://a.io'') ''A''
       = failure ''boom''
   \<and> error (failure ''boom'') = Some ''boom''"
  using fetch_failure_gives_error_result
          [of "''https://a.io''" refusing "''connection refused''" urljoin_absolute "''A''"
              "''boom''" "Some ''https://a.io''"]
        fetch_failure_gives_error_result
          [of "''https://a.io''" "example_net ''A''" "''boom''" urljoin_absolute "''A''"
              "''boom''" "Some ''https://a.io''"]
  by (simp add: refusing_def example_net_def)

text \<open>
  Claim C9 as stated, that every result carries \<open>source_url\<close>, fails: the result for a
  refused request has none.
\<close>

theorem failed_fetch_has_no_source_url:
  "scrape_website_contacts urljoin_absolute refusing (Some ''https://a.io'') ''A''
     = failure ''Failed to fetch URL''
   \<and> source_url (scrape_website_contacts urljoin_absolute refusing (Some ''https://a.io'') ''A'')
     = None"
  by (simp add: scrape_website_contacts_def fetch_url_def refusing_def failure_def)

section \<open>Scraping a batch\<close>

lemma fst_scrape_single: "fst (scrape_single urljoin get delay business url) = business"
  by (simp add: scrape_single_def Let_def)


lemma collect_other:
  "k \<notin> fst ` set items \<Longrightarrow>
   foldl (\<lambda>results item. results(fst item \<mapsto> g item)) m items k = m k"
  by (induction items arbitrary: m) auto


lemma batch_step:
  "(\<lambda>results (business, url).
       case scrape_single urljoin (net business) delay business url of
         (business', contacts) \<Rightarrow> results(business' \<mapsto> contacts))
   = (\<lambda>results item.
       results(fst item \<mapsto> snd (scrape_single urljoin (net (fst item)) delay (fst item) (snd item))))"
  by (auto simp: fun_eq_iff scrape_single_def Let_def)




section \<open>Reconciliation\<close>

lemma prepare_fold:
  "foldl (prepare_step clock info) (final_data, failed) items =
     (final_data @ records_from clock info (length final_data) items,
      failed @ map fst (filter (\<lambda>(business, url). is_failed url (lookup_contacts info business)) items))"
  by (induction items arbitrary: final_data failed)
     (auto simp: prepare_step_def Let_def)

lemma prepare_final_data_eq:
  "prepare_final_data clock self =
     (records_from clock (contact_info self) 0 (business_urls self),
      self\<lparr>failed_businesses := failed_businesses self @
         map fst (filter (\<lambda>(business, url). is_failed url (lookup_contacts (contact_info self) business))
                    (business_urls self))\<rparr>)"
  by (simp add: prepare_final_data_def prepare_fold)

lemma names_records_from: "map business_name (records_from clock info n items) = map fst items"
  by (induction clock info n items rule: records_from.induct) (auto simp: make_record_def)

lemma records_of_absent:
  "business \<notin> fst ` set items \<Longrightarrow> records_of business (records_from clock info n items) = []"
  by (induction clock info n items rule: records_from.induct)
     (auto simp: records_of_def make_record_def)

lemma records_of_present:
  "distinct (map fst items) \<Longrightarrow> (business, url) \<in> set items \<Longrightarrow>
   \<exists>i. records_of business (records_from clock info n items)
          = [make_record (clock i) business url (lookup_contacts info business)]"
proof (induction clock info n items rule: records_from.induct)
  case (1 clock info n)
  then show ?case by simp
next
  case (2 clock info n b u items)
  show ?case
  proof (cases "b = business")
    case True
    with "2.prems" have "business \<notin> fst ` set items" and "u = url"
      by (auto simp: image_iff)
    with True show ?thesis
      using records_of_absent [of business items clock info "Suc n"]
      by (auto simp: records_of_def make_record_def)
  next
    case False
    with "2.prems" have "distinct (map fst items)" and "(business, url) \<in> set items" by auto
    from "2.IH" [OF this] False show ?thesis
      by (auto simp: records_of_def make_record_def)
  qed
qed

text \<open>
  Claim C7. The reconciled output has exactly one record for each business name of the
  URL map, in the order of the map; a business without contact facts gets the record of
  an empty contact result; a name of the extracted list that is not in the URL map has
  no record.
\<close>

theorem reconciled_one_record_per_url_entry:
  assumes keys: "distinct (map fst (business_urls self))"
  shows "map business_name (fst (prepare_final_data clock self)) = map fst (business_urls self)
       \<and> length (records_of n (fst (prepare_final_data clock self)))
           = (if n \<in> fst ` set (business_urls self) then 1 else 0)
       \<and> ((n, url) \<in> set (business_urls self) \<and> contact_info self n = None \<longrightarrow>
            (\<exists>r. records_of n (fst (prepare_final_data clock self)) = [r]
               \<and> website_url r = url \<and> rec_emails r = [] \<and> rec_phones r = []
               \<and> rec_social_media r = [] \<and> source_page r = [] \<and> errors r = []))
       \<and> (n' \<in> set (business_names self) \<and> n' \<notin> fst ` set (business_urls self) \<longrightarrow>
            records_of n' (fst (prepare_final_data clock self)) = [])"
proof -
  let ?out = "fst (prepare_final_data clock self)"
  have out: "?out = records_from clock (contact_info self) 0 (business_urls self)"
    by (simp add: prepare_final_data_eq)
  have names: "map business_name ?out = map fst (business_urls self)"
    by (simp add: out names_records_from)
  have absent: "records_of k ?out = []" if "k \<notin> fst ` set (business_urls self)" for k
    using that by (simp add: out records_of_absent)
  have present: "\<exists>i. records_of n ?out
                    = [make_record (clock i) n u (lookup_contacts (contact_info self) n)]"
    if "(n, u) \<in> set (business_urls self)" for u
    unfolding out using keys that by (rule records_of_present)
  have count: "length (records_of n ?out) = (if n \<in> fst ` set (business_urls self) then 1 else 0)"
  proof (cases "n \<in> fst ` set (business_urls self)")
    case True
    then obtain u where "(n, u) \<in> set (business_urls self)" by auto
    from present [OF this] True show ?thesis by auto
  next
    case False
    with absent show ?thesis by simp
  qed
  have missing: "\<exists>r. records_of n ?out = [r]
               \<and> website_url r = url \<and> rec_emails r = [] \<and> rec_phones r = []
               \<and> rec_social_media r = [] \<and> source_page r = [] \<and> errors r = []"
    if "(n, url) \<in> set (business_urls self)" and "contact_info self n = None"
  proof -
    from present [OF that(1)] obtain i where
      "records_of n ?out = [make_record (clock i) n url (lookup_contacts (contact_info self) n)]"
      by blast
    with that(2) show ?thesis
      by (simp add: make_record_def lookup_contacts_def get_or_def no_contacts_def)
  qed
  from names count missing absent show ?thesis by blast
qed

text \<open>
  The theorem at a pipeline whose second business has no contact facts and whose third
  name is not in the URL map.
\<close>

theorem reconciled_one_record_per_url_entry_witness:
  "distinct (map fst (business_urls example_pipeline))
   \<and> map business_name (fst (prepare_final_data example_clock example_pipeline)) = [''A'', ''B'']
   \<and> length (records_of ''B'' (fst (prepare_final_data example_clock example_pipeline))) = 1
   \<and> (\<exists>r. records_of ''B'' (fst (prepare_final_data example_clock example_pipeline)) = [r]
          \<and> website_url r = None \<and> rec_emails r = [] \<and> rec_phones r = []
          \<and> rec_social_media r = [] \<and> source_page r = [] \<and> errors r = [])
   \<and> ''D'' \<in> set (business_names example_pipeline)
   \<and> ''D'' \<notin> fst ` set (business_urls example_pipeline)
   \<and> records_of ''D'' (fst (prepare_final_data example_clock example_pipeline)) = []"
proof -
  have h: "distinct (map fst (business_urls example_pipeline))"
    by (simp add: example_pipeline_def example_urls_gap_def)
  have m: "(''B'', None) \<in> set (business_urls example_pipeline)"
          "contact_info example_pipeline ''B'' = None"
          "''B'' \<in> fst ` set (business_urls example_pipeline)"
          "map fst (business_urls example_pipeline) = [''A'', ''B'']"
          "''D'' \<in> set (business_names example_pipeline)"
          "''D'' \<notin> fst ` set (business_urls example_pipeline)"
    by (simp_all add: example_pipeline_def example_urls_gap_def)
  from reconciled_one_record_per_url_entry [OF h, of example_clock "''B''" None "''D''"] m h
  show ?thesis by simp
qed

text \<open>
  Claim C6, as the code has it. A business of the URL map whose URL is absent or empty,
  or whose emails and phones are both empty, is appended to the list of failed
  businesses and has exactly one record in the output. The email, phone and social fields
  of the record are those of its contact result, empty where the result has none: the
  emails and phones are empty when the business has a URL, and all three fields are
  empty when the business has no contact result.
\<close>

theorem failed_business_still_emitted:
  assumes keys: "distinct (map fst (business_urls self))"
    and item: "(n, url) \<in> set (business_urls self)"
    and failed: "\<not> truthy url \<or>
                 (get_or [] (emails (lookup_contacts (contact_info self) n)) = [] \<and>
                  get_or [] (phones (lookup_contacts (contact_info self) n)) = [])"
  shows "n \<in> set (failed_businesses (snd (prepare_final_data clock self)))
       \<and> (\<exists>r. records_of n (fst (prepare_final_data clock self)) = [r]
             \<and> website_url r = url
             \<and> rec_emails r = get_or [] (emails (lookup_contacts (contact_info self) n))
             \<and> rec_phones r = get_or [] (phones (lookup_contacts (contact_info self) n))
             \<and> rec_social_media r = get_or [] (social_media (lookup_contacts (contact_info self) n))
             \<and> (truthy url \<longrightarrow> rec_emails r = [] \<and> rec_phones r = [])
             \<and> (contact_info self n = None \<longrightarrow>
                   rec_emails r = [] \<and> rec_phones r = [] \<and> rec_social_media r = []))"
proof -
  let ?c = "lookup_contacts (contact_info self) n"
  from failed have "is_failed url ?c" by (auto simp: is_failed_def)
  with item have "n \<in> fst ` set (filter (\<lambda>(business, url).
                      is_failed url (lookup_contacts (contact_info self) business)) (business_urls self))"
    by force
  then have listed: "n \<in> set (failed_businesses (snd (prepare_final_data clock self)))"
    by (simp add: prepare_final_data_eq)
  from records_of_present [OF keys item] obtain i where
    r: "records_of n (records_from clock (contact_info self) 0 (business_urls self))
          = [make_record (clock i) n url ?c]"
    by blast
  have none: "contact_info self n = None \<Longrightarrow> ?c = no_contacts"
    by (simp add: lookup_contacts_def get_or_def)
  from r failed none have
    "\<exists>r. records_of n (fst (prepare_final_data clock self)) = [r]
             \<and> website_url r = url
             \<and> rec_emails r = get_or [] (emails ?c)
             \<and> rec_phones r = get_or [] (phones ?c)
             \<and> rec_social_media r = get_or [] (social_media ?c)
             \<and> (truthy url \<longrightarrow> rec_emails r = [] \<and> rec_phones r = [])
             \<and> (contact_info self n = None \<longrightarrow>
                   rec_emails r = [] \<and> rec_phones r = [] \<and> rec_social_media r = [])"
    by (auto simp: prepare_final_data_eq make_record_def no_contacts_def get_or_def)
  with listed show ?thesis by blast
qed

text \<open>
  The theorem at a business without URL and without contact facts, and at a business
  with a URL whose site gave social links only.
\<close>

theorem failed_business_still_emitted_witness:
  "distinct (map fst (business_urls example_pipeline))
   \<and> (''B'', None) \<in> set (business_urls example_pipeline)
   \<and> \<not> truthy None
   \<and> contact_info example_pipeline ''B'' = None
   \<and> ''B'' \<in> set (failed_businesses (snd (prepare_final_data example_clock example_pipeline)))
   \<and> (\<exists>r. records_of ''B'' (fst (prepare_final_data example_clock example_pipeline)) = [r]
          \<and> website_url r = None
          \<and> rec_emails r = [] \<and> rec_phones r = [] \<and> rec_social_media r = [])
   \<and> distinct (map fst (business_urls social_only))
   \<and> (''C'', Some ''https://c.io'') \<in> set (business_urls social_only)
   \<and> truthy (Some ''https://c.io'')
   \<and> ''C'' \<in> set (failed_businesses (snd (prepare_final_data example_clock social_only)))
   \<and> (\<exists>r. records_of ''C'' (fst (prepare_final_data example_clock social_only)) = [r]
          \<and> website_url r = Some ''https://c.io''
          \<and> rec_emails r = [] \<and> rec_phones r = []
          \<and> rec_social_media r = [(''facebook'', ''https://facebook.com/mybiz'')])"
proof -
  have h: "distinct (map fst (business_urls example_pipeline))"
    by (simp add: example_pipeline_def example_urls_gap_def)
  have m: "(''B'', None) \<in> set (business_urls example_pipeline)"
    by (simp add: example_pipeline_def example_urls_gap_def)
  have n: "contact_info example_pipeline ''B'' = None"
    by (simp add: example_pipeline_def)
  have f: "\<not> truthy None" by (simp add: truthy_def)
  from f have f': "\<not> truthy None \<or>
                 (get_or [] (emails (lookup_contacts (contact_info example_pipeline) ''B'')) = [] \<and>
                  get_or [] (phones (lookup_contacts (contact_info example_pipeline) ''B'')) = [])"
    by simp
  from failed_business_still_emitted [OF h m f', of example_clock] n
  have b: "''B'' \<in> set (failed_businesses (snd (prepare_final_data example_clock example_pipeline)))
     \<and> (\<exists>r. records_of ''B'' (fst (prepare_final_data example_clock example_pipeline)) = [r]
          \<and> website_url r = None
          \<and> rec_emails r = [] \<and> rec_phones r = [] \<and> rec_social_media r = [])"
    by auto
  have h2: "distinct (map fst (business_urls social_only))"
    by (simp add: social_only_def)
  have m2: "(''C'', Some ''https://c.io'') \<in> set (business_urls social_only)"
    by (simp add: social_only_def)
  have t2: "truthy (Some ''https://c.io'')" by (simp add: truthy_def)
  have c2: "lookup_contacts (contact_info social_only) ''C'' =
              \<lparr>emails = Some [], phones = Some [],
               social_media = Some [(''facebook'', ''https://facebook.com/mybiz'')],
               source_url = Some ''https://c.io'', error = None\<rparr>"
    by (simp add: social_only_def lookup_contacts_def get_or_def)
  have f2: "\<not> truthy (Some ''https://c.io'') \<or>
                 (get_or [] (emails (lookup_contacts (contact_info social_only) ''C'')) = [] \<and>
                  get_or [] (phones (lookup_contacts (contact_info social_only) ''C'')) = [])"
    by (simp add: c2 get_or_def)
  from failed_business_still_emitted [OF h2 m2 f2, of example_clock]
  have c: "''C'' \<in> set (failed_businesses (snd (prepare_final_data example_clock social_only)))
     \<and> (\<exists>r. records_of ''C'' (fst (prepare_final_data example_clock social_only)) = [r]
          \<and> website_url r = Some ''https://c.io''
          \<and> rec_emails r = [] \<and> rec_phones r = []
          \<and> rec_social_media r = [(''facebook'', ''https://facebook.com/mybiz'')])"
    by (auto simp: c2 get_or_def t2)
  from h m f n b h2 m2 t2 c show ?thesis by blast
qed

text \<open>
  Claim C6 as stated, that a failed business is emitted with empty email, phone and
  social fields, fails: a site that gave a social link and neither an email nor a phone
  makes its business failed, and the record keeps the social link.
\<close>

theorem failed_with_social_links:
  "contact_info social_only ''C''
     = Some (scrape_website_contacts urljoin_absolute (example_net ''C'') (Some ''https://c.io'') ''C'')
   \<and> failed_businesses (snd (prepare_final_data example_clock social_only)) = [''C'']
   \<and> map rec_social_media (fst (prepare_final_data example_clock social_only))
       = [[(''facebook'', ''https://facebook.com/mybiz'')]]"
  by code_simp

text \<open>
  Claim C10. A business whose URL is \<open>None\<close> or empty is not among the submitted items
  and has no entry in the mapping that the batch returns; reconciliation over that
  mapping still emits its record, with the fields of an empty contact result.
\<close>

theorem business_without_url_not_scraped:
  assumes keys: "distinct (map fst urls)"
    and item: "(b, url) \<in> set urls"
    and no_url: "\<not> truthy url"
    and perm: "mset (completion (submitted urls)) = mset (submitted urls)"
    and pool: "0 < max_workers"
  shows "b \<notin> fst ` set (submitted urls)
       \<and> (\<exists>results.
            batch_scrape_contacts urljoin net completion urls delay max_workers = Inr results
          \<and> results b = None
          \<and> (\<exists>r. records_of b (fst (prepare_final_data clock
                      \<lparr>business_names = names, business_urls = urls,
                       contact_info = results, failed_businesses = failed\<rparr>)) = [r]
                \<and> website_url r = url \<and> rec_emails r = [] \<and> rec_phones r = []
                \<and> rec_social_media r = [] \<and> source_page r = [] \<and> errors r = []))"
proof -
  let ?g = "\<lambda>item. snd (scrape_single urljoin (net (fst item)) delay (fst item) (snd item))"
  let ?order = "completion (submitted urls)"
  let ?results = "foldl (\<lambda>results item. results(fst item \<mapsto> ?g item)) Map.empty ?order"
  let ?self = "\<lparr>business_names = names, business_urls = urls,
                contact_info = ?results, failed_businesses = failed\<rparr>"
  have skipped: "b \<notin> fst ` set (submitted urls)"
  proof
    assume "b \<in> fst ` set (submitted urls)"
    then obtain u where u: "(b, u) \<in> set urls" "truthy u"
      by (auto simp: submitted_def)
    from keys item u(1) have "u = url" by (metis eq_key_imp_eq_value)
    with u(2) no_url show False by simp
  qed
  have batch: "batch_scrape_contacts urljoin net completion urls delay max_workers = Inr ?results"
    using pool by (simp add: batch_scrape_contacts_def batch_step)
  have "set ?order = set (submitted urls)"
    using perm by (metis set_mset_mset)
  with skipped have "b \<notin> fst ` set ?order" by simp
  then have none: "?results b = None"
    by (simp add: collect_other)
  from records_of_present [OF keys item] obtain i where
    "records_of b (records_from clock ?results 0 urls)
       = [make_record (clock i) b url (lookup_contacts ?results b)]"
    by blast
  with none have
    "\<exists>r. records_of b (fst (prepare_final_data clock ?self)) = [r]
         \<and> website_url r = url \<and> rec_emails r = [] \<and> rec_phones r = []
         \<and> rec_social_media r = [] \<and> source_page r = [] \<and> errors r = []"
    by (simp add: prepare_final_data_eq make_record_def lookup_contacts_def get_or_def
                  no_contacts_def)
  with skipped batch none show ?thesis by blast
qed

text \<open>The theorem at a URL map whose second business has no URL.\<close>

theorem business_without_url_not_scraped_witness:
  "distinct (map fst example_urls_gap)
   \<and> (''B'', None) \<in> set example_urls_gap
   \<and> \<not> truthy None
   \<and> mset (rev (submitted example_urls_gap)) = mset (submitted example_urls_gap)
   \<and> (0::int) < 5
   \<and> ''B'' \<notin> fst ` set (submitted example_urls_gap)
   \<and> (\<exists>results.
         batch_scrape_contacts urljoin_absolute example_net rev example_urls_gap 1 5 = Inr results
       \<and> results ''B'' = None
       \<and> (\<exists>r. records_of ''B'' (fst (prepare_final_data example_clock
                   \<lparr>business_names = [''A'', ''B''], business_urls = example_urls_gap,
                    contact_info = results, failed_businesses = []\<rparr>)) = [r]
             \<and> website_url r = None \<and> rec_emails r = [] \<and> rec_phones r = []
             \<and> rec_social_media r = [] \<and> source_page r = [] \<and> errors r = []))"
proof -
  have h1: "distinct (map fst example_urls_gap)" by (simp add: example_urls_gap_def)
  have h2: "(''B'', None) \<in> set example_urls_gap" by (simp add: example_urls_gap_def)
  have h3: "\<not> truthy None" by (simp add: truthy_def)
  have h4: "mset (rev (submitted example_urls_gap)) = mset (submitted example_urls_gap)" by simp
  have h5: "(0::int) < 5" by simp
  from business_without_url_not_scraped
         [where urls = example_urls_gap and completion = rev and max_workers = 5
            and urljoin = urljoin_absolute and net = example_net and delay = 1
            and clock = example_clock and names = "[''A'', ''B'']" and failed = "[]",
          OF h1 h2 h3 h4 h5]
       h1 h2 h3 h4 h5
  show ?thesis by blast
qed

end
